theory Spec2Isabelle
  imports Complex_Main
begin

section \<open>Bid evaluation scores: the computation of app.py\<close>

text \<open>
  The source computes, from a list of bid prices, a first average A1 (after an optional
  trim of the highest and lowest prices), a second average A2 (over the prices within a
  deviation band around A1), a benchmark price D = A2 * K and a score for every bid.

  Numbers: the source computes with IEEE doubles. The model computes with exact reals,
  and writes out the two places where a double is not a real number:
  \<^item> \<open>np.mean\<close> of an empty list is NaN. A possibly-NaN number is a \<open>real option\<close>,
    \<open>None\<close> standing for NaN; every comparison with NaN is false and every arithmetic
    operation on NaN gives NaN.
  \<^item> A division by zero has no real result (numpy gives an infinity or NaN with a
    warning); it is \<open>None\<close> too, or a failed comparison.
  Rounding error and overflow of doubles are outside the model.
\<close>

subsection \<open>Python and numpy primitives\<close>

text \<open>\<open>np.mean(xs)\<close>: the sum over the length; NaN on the empty list.\<close>

definition np_mean :: "real list \<Rightarrow> real option" where
  "np_mean xs = (if xs = [] then None else Some (sum_list xs / real (length xs)))"

text \<open>
  \<open>xs[i:j]\<close>: a negative bound counts from the end of the list, and both bounds are
  clamped to the list; the slice is empty when the lower bound is not below the upper.
\<close>

definition slice_bound :: "int \<Rightarrow> int \<Rightarrow> nat" where
  "slice_bound n i = nat (if i < 0 then max (n + i) 0 else min i n)"

definition py_slice :: "'a list \<Rightarrow> int \<Rightarrow> int \<Rightarrow> 'a list" where
  "py_slice xs i j =
     (let n = int (length xs); lo = slice_bound n i; hi = slice_bound n j
      in take (hi - lo) (drop lo xs))"

text \<open>
  \<open>max(xs)\<close>: keeps the current maximum unless the next item is greater; ValueError
  (here \<open>None\<close>) on the empty list.
\<close>

fun py_max :: "real list \<Rightarrow> real option" where
  "py_max [] = None"
| "py_max (x # xs) = Some (fold max xs x)"

text \<open>
  \<open>round(x, ndigits)\<close>: to the nearest multiple of \<open>10 ^ (- ndigits)\<close>, a tie going to the
  even neighbour.
\<close>

definition round_half_even :: "real \<Rightarrow> int" where
  "round_half_even y =
     (let f = \<lfloor>y\<rfloor>; d = y - of_int f
      in if d < 1 / 2 then f
         else if d > 1 / 2 then f + 1
         else if even f then f else f + 1)"

definition py_round :: "real \<Rightarrow> nat \<Rightarrow> real" where
  "py_round x ndigits = of_int (round_half_even (x * 10 ^ ndigits)) / 10 ^ ndigits"

subsection \<open>calculate_first_average\<close>

text \<open>
  The notes the source returns with A1 (Chinese strings in the source), in the order of
  its return statements: the mean of all bids (n <= 3); the mean of all bids, no supplier
  left after the trim; the mean without the highest price, one supplier left after the
  trim; the mean of the remaining bids.
\<close>

datatype first_note =
  MeanOfAll
| MeanOfAllZeroLeft
| MeanWithoutHighestOneLeft
| MeanOfRemaining

definition calculate_first_average :: "real list \<Rightarrow> int \<Rightarrow> int \<Rightarrow> real option \<times> real list \<times> first_note" where
  "calculate_first_average prices m k =
     (let n = length prices in
      if n \<le> 3 then (np_mean prices, prices, MeanOfAll)
      else
        (let sorted_prices = sort prices;
             remaining_prices = py_slice sorted_prices k (int n - m)
         in if length remaining_prices = 0 then (np_mean prices, prices, MeanOfAllZeroLeft)
            else if length remaining_prices = 1 then
              (let prices_without_highest = filter (\<lambda>p. Some p \<noteq> py_max prices) prices
               in (np_mean prices_without_highest, prices_without_highest, MeanWithoutHighestOneLeft))
            else (np_mean remaining_prices, remaining_prices, MeanOfRemaining)))"

subsection \<open>calculate_second_average\<close>

text \<open>
  The test \<open>s1 <= (first_avg - p) / first_avg <= s2\<close>. It is false when \<open>first_avg\<close> is
  NaN, and false when \<open>first_avg\<close> is zero: the quotient is then an infinity or NaN, which
  lies in no band of real bounds.
\<close>

definition within_band :: "real option \<Rightarrow> real \<Rightarrow> real \<Rightarrow> real \<Rightarrow> bool" where
  "within_band first_avg s1 s2 p =
     (case first_avg of
        None \<Rightarrow> False
      | Some a \<Rightarrow> a \<noteq> 0 \<and> s1 \<le> (a - p) / a \<and> (a - p) / a \<le> s2)"

text \<open>
  The notes returned with A2: the first average is used, no price within the band; the
  mean of the prices within the band.
\<close>

datatype second_note =
  FirstAverageUsed
| MeanWithinBand

definition calculate_second_average :: "real list \<Rightarrow> real option \<Rightarrow> real \<Rightarrow> real \<Rightarrow> real option \<times> real list \<times> second_note" where
  "calculate_second_average prices first_avg s1 s2 =
     (let valid_prices = filter (within_band first_avg s1 s2) prices
      in if valid_prices = [] then (first_avg, prices, FirstAverageUsed)
         else (np_mean valid_prices, valid_prices, MeanWithinBand))"

subsection \<open>calculate_price_score\<close>

text \<open>
  The quotient by \<open>base_price\<close> has no real value when \<open>base_price\<close> is zero and the bid
  differs from it: the result is then \<open>None\<close>.
\<close>

definition calculate_price_score :: "real \<Rightarrow> real \<Rightarrow> real \<Rightarrow> real \<Rightarrow> real option" where
  "calculate_price_score bid_price base_price e_higher e_lower =
     (if bid_price = base_price then Some 100
      else if base_price = 0 then None
      else if bid_price > base_price then
        Some (max (py_round (100 - \<bar>bid_price - base_price\<bar> / base_price * 100 * e_higher) 2) 0)
      else
        Some (max (py_round (100 - \<bar>bid_price - base_price\<bar> / base_price * 100 * e_lower) 2) 0))"

subsection \<open>The evaluation run\<close>

text \<open>The parameters of the sidebar.\<close>

record params =
  k_value :: real
  e_higher :: real
  e_lower :: real
  use_elimination :: bool
  m_value :: int
  k_value_elim :: int
  s1_value :: real
  s2_value :: real

text \<open>
  One row of the result table per bid, in the order of the input, numbered from 1. The
  two deviations are kept as the rounded numbers (the source then prints them as
  percentages).
\<close>

record scored_bid =
  row_index :: nat
  row_price :: real
  row_first_avg :: "real option"
  row_first_deviation :: "real option"
  row_second_avg :: "real option"
  row_base_price :: "real option"
  row_final_deviation :: "real option"
  row_score :: "real option"

record run_result =
  first_avg_of :: "real option"
  remaining_prices_of :: "real list"
  first_avg_note_of :: first_note
  second_avg_of :: "real option"
  final_prices_of :: "real list"
  second_avg_note_of :: second_note
  base_price_of :: "real option"
  results_of :: "scored_bid list"

text \<open>\<open>round((avg - price) / avg, 4)\<close>, NaN when \<open>avg\<close> is NaN or zero.\<close>

definition deviation :: "real option \<Rightarrow> real \<Rightarrow> real option" where
  "deviation avg price =
     (case avg of
        None \<Rightarrow> None
      | Some a \<Rightarrow> if a = 0 then None else Some (py_round ((a - price) / a) 4))"

text \<open>The score against a benchmark price that may be NaN: every test fails on NaN, and
  the last branch computes NaN.\<close>

definition score_against :: "real option \<Rightarrow> real \<Rightarrow> real \<Rightarrow> real \<Rightarrow> real option" where
  "score_against base_price price eh el =
     (case base_price of
        None \<Rightarrow> None
      | Some d \<Rightarrow> calculate_price_score price d eh el)"

text \<open>
  The run of the script on a list of prices: nothing is computed on an empty list
  (\<open>if prices:\<close>), so the result is \<open>None\<close> there. The source has no \<open>raise\<close>.
\<close>

definition evaluate :: "real list \<Rightarrow> params \<Rightarrow> run_result option" where
  "evaluate prices ps =
     (if prices = [] then None
      else
        (let (first_avg, remaining_prices, first_avg_note) =
               (if use_elimination ps
                then calculate_first_average prices (m_value ps) (k_value_elim ps)
                else calculate_first_average prices 0 0);
             (second_avg, final_prices, second_avg_note) =
               calculate_second_average remaining_prices first_avg (s1_value ps) (s2_value ps);
             base_price = map_option (\<lambda>a. a * k_value ps) second_avg
         in Some \<lparr>
              first_avg_of = first_avg,
              remaining_prices_of = remaining_prices,
              first_avg_note_of = first_avg_note,
              second_avg_of = second_avg,
              final_prices_of = final_prices,
              second_avg_note_of = second_avg_note,
              base_price_of = base_price,
              results_of =
                map (\<lambda>(i, price).
                      \<lparr> row_index = i,
                        row_price = price,
                        row_first_avg = first_avg,
                        row_first_deviation = deviation first_avg price,
                        row_second_avg = second_avg,
                        row_base_price = base_price,
                        row_final_deviation = deviation second_avg price,
                        row_score = score_against base_price price (e_higher ps) (e_lower ps) \<rparr>)
                    (enumerate 1 prices) \<rparr>))"

text \<open>
  The values the sidebar starts with: K = 0.90, the two penalty coefficients 1.0 and 0.5,
  the elimination rule switched off, the band from -0.2 to 0.1.
\<close>

definition default_params :: params where
  "default_params =
     \<lparr> k_value = 9 / 10, e_higher = 1, e_lower = 1 / 2, use_elimination = False,
       m_value = 0, k_value_elim = 0, s1_value = - (2 / 10), s2_value = 1 / 10 \<rparr>"

section \<open>Rounding and clamping\<close>

lemma round_half_even_lower: "\<lfloor>y\<rfloor> \<le> round_half_even y"
  by (simp add: round_half_even_def Let_def)

lemma round_half_even_upper: "round_half_even y \<le> \<lfloor>y\<rfloor> + 1"
  by (simp add: round_half_even_def Let_def)

text \<open>Rounding keeps the order: within one unit interval the three cases of the
  definition are ordered, and across intervals the floor decides.\<close>

lemma round_half_even_mono:
  assumes "x \<le> y"
  shows "round_half_even x \<le> round_half_even y"
proof (cases "\<lfloor>x\<rfloor> = \<lfloor>y\<rfloor>")
  case True
  with assms have "x - of_int \<lfloor>x\<rfloor> \<le> y - of_int \<lfloor>y\<rfloor>" by simp
  with True show ?thesis
    by (auto simp add: round_half_even_def Let_def)
next
  case False
  from assms have "\<lfloor>x\<rfloor> \<le> \<lfloor>y\<rfloor>" by (rule floor_mono)
  with False have "\<lfloor>x\<rfloor> + 1 \<le> \<lfloor>y\<rfloor>" by simp
  with round_half_even_upper [of x] round_half_even_lower [of y] show ?thesis by linarith
qed

lemma round_half_even_of_int: "round_half_even (of_int n) = n"
  by (simp add: round_half_even_def)

lemma py_round_mono: "x \<le> y \<Longrightarrow> py_round x nd \<le> py_round y nd"
  unfolding py_round_def
  by (intro divide_right_mono) (simp_all add: round_half_even_mono mult_right_mono)

lemma py_round_100: "py_round 100 2 = 100"
proof -
  have "(100::real) * 10 ^ 2 = of_int 10000" by simp
  then have "round_half_even (100 * 10 ^ 2) = 10000"
    using round_half_even_of_int [of 10000] by simp
  then show ?thesis by (simp add: py_round_def)
qed

lemma clamp_round_range:
  assumes "x \<le> 100"
  shows "0 \<le> max (py_round x 2) 0 \<and> max (py_round x 2) 0 \<le> 100"
  using py_round_mono [OF assms, of 2] by (simp add: py_round_100)

section \<open>Slices and the maximum\<close>

lemma py_max_eq_Max: "xs \<noteq> [] \<Longrightarrow> py_max xs = Some (Max (set xs))"
  by (cases xs) (simp_all add: Max.set_eq_fold del: set_simps)

lemma slice_bound_le: "slice_bound (int n) i \<le> n"
  unfolding slice_bound_def by (cases "i < 0") simp_all

lemma length_py_slice:
  "length (py_slice xs i j) = slice_bound (int (length xs)) j - slice_bound (int (length xs)) i"
  using slice_bound_le [of "length xs" j]
  by (simp add: py_slice_def Let_def)

lemma set_py_slice: "set (py_slice xs i j) \<subseteq> set xs"
proof -
  have "set (py_slice xs i j) \<subseteq> set (drop (slice_bound (int (length xs)) i) xs)"
    by (simp add: py_slice_def Let_def set_take_subset)
  also have "\<dots> \<subseteq> set xs" by (rule set_drop_subset)
  finally show ?thesis .
qed

text \<open>With counts in range, \<open>xs[k : n - m]\<close> keeps \<open>n - m - k\<close> items (none when that
  is negative).\<close>

lemma survivors_count:
  assumes "0 \<le> k" "0 \<le> m" "m \<le> int (length xs)"
  shows "length (py_slice xs k (int (length xs) - m)) = nat (int (length xs) - m - k)"
proof -
  from assms have "slice_bound (int (length xs)) (int (length xs) - m) = nat (int (length xs) - m)"
    by (simp add: slice_bound_def)
  moreover from assms have "slice_bound (int (length xs)) k = nat (min k (int (length xs)))"
    by (simp add: slice_bound_def)
  ultimately show ?thesis
    using assms unfolding length_py_slice by linarith
qed

lemma count_list_filter:
  "count_list (filter P xs) y = (if P y then count_list xs y else 0)"
  by (induction xs) auto

lemma sum_list_pos:
  fixes xs :: "real list"
  assumes "xs \<noteq> []" "\<forall>x\<in>set xs. 0 < x"
  shows "0 < sum_list xs"
  using assms
proof (induction xs)
  case Nil
  then show ?case by simp
next
  case (Cons x xs)
  then show ?case by (cases xs) (auto simp add: add_pos_pos)
qed

lemma np_mean_pos:
  assumes "xs \<noteq> []" "\<forall>x\<in>set xs. 0 < x"
  shows "\<exists>a. np_mean xs = Some a \<and> 0 < a"
  using assms sum_list_pos [OF assms] by (simp add: np_mean_def)

section \<open>The first average\<close>

text \<open>
  C4. A list of at most three prices is averaged as it is: A1 is the plain arithmetic mean
  of all the prices (NaN on no price at all), the basis is the whole list, and the trim
  counts \<open>m\<close> and \<open>k\<close> play no part.
\<close>

theorem small_pool_plain_mean:
  assumes "length prices \<le> 3"
  shows "calculate_first_average prices m k =
    (if prices = [] then None else Some (sum_list prices / real (length prices)), prices, MeanOfAll)"
  using assms by (simp add: calculate_first_average_def np_mean_def)

theorem small_pool_plain_mean_witness:
  "length [120, 150, 90 :: real] \<le> 3 \<and>
   calculate_first_average [120, 150, 90] 2 1 = (Some 120, [120, 150, 90], MeanOfAll)"
  using small_pool_plain_mean [of "[120, 150, 90]" 2 1] by simp

text \<open>
  The branch taken on more than three prices when the slice of the sorted list holds one
  price: every price different from the maximum of the original list is kept, in the
  original order.
\<close>

lemma first_average_single_survivor:
  assumes "3 < length prices"
    and "length (py_slice (sort prices) k (int (length prices) - m)) = 1"
  shows "calculate_first_average prices m k =
    (np_mean (filter (\<lambda>p. p \<noteq> Max (set prices)) prices),
     filter (\<lambda>p. p \<noteq> Max (set prices)) prices, MeanWithoutHighestOneLeft)"
proof -
  from assms(1) have "prices \<noteq> []" by auto
  then have "py_max prices = Some (Max (set prices))" by (rule py_max_eq_Max)
  moreover from assms(2) have "py_slice (sort prices) k (int (length prices) - m) \<noteq> []"
    by auto
  ultimately show ?thesis
    using assms by (simp add: calculate_first_average_def Let_def)
qed

text \<open>
  C3. On more than three prices, when exactly one price is left by the trim (the slice
  \<open>sorted_prices[k : n - m]\<close> has length 1), A1 is the mean of the original list without
  its maximum price, not the mean of the one price left; that reduced list is the basis,
  and the note tells of the fallback.
\<close>

theorem single_survivor_recomputes_without_max:
  assumes "3 < length prices"
    and "length (py_slice (sort prices) k (int (length prices) - m)) = 1"
  shows "calculate_first_average prices m k =
    (np_mean (filter (\<lambda>p. p \<noteq> Max (set prices)) prices),
     filter (\<lambda>p. p \<noteq> Max (set prices)) prices, MeanWithoutHighestOneLeft)"
  using assms by (rule first_average_single_survivor)

text \<open>Four bids, the two highest and the lowest dropped: the price left is 20, and A1 is
  the mean of 10, 20 and 40.\<close>

theorem single_survivor_recomputes_without_max_witness:
  "3 < length [10, 20, 60, 40 :: real] \<and>
   length (py_slice (sort [10, 20, 60, 40 :: real]) 1 (int (length [10, 20, 60, 40 :: real]) - 2)) = 1 \<and>
   py_slice (sort [10, 20, 60, 40 :: real]) 1 (int (length [10, 20, 60, 40 :: real]) - 2) = [20] \<and>
   calculate_first_average [10, 20, 60, 40] 2 1 = (Some (70 / 3), [10, 20, 40], MeanWithoutHighestOneLeft)"
  using single_survivor_recomputes_without_max [of "[10, 20, 60, 40]" 1 2]
  by (simp add: py_slice_def slice_bound_def np_mean_def)

text \<open>
  C10. In that fallback every copy of the maximum price is removed, not one of them: the
  basis holds the maximum no more, and every other price as often as the original list
  does.
\<close>

theorem single_survivor_removes_every_maximum:
  assumes "3 < length prices"
    and "length (py_slice (sort prices) k (int (length prices) - m)) = 1"
  shows "count_list (fst (snd (calculate_first_average prices m k))) (Max (set prices)) = 0 \<and>
    (\<forall>p. p \<noteq> Max (set prices) \<longrightarrow>
       count_list (fst (snd (calculate_first_average prices m k))) p = count_list prices p)"
  by (simp add: first_average_single_survivor [OF assms] count_list_filter)

text \<open>The maximum 3 is bid twice; both copies are gone from the basis.\<close>

theorem single_survivor_removes_every_maximum_witness:
  "3 < length [1, 3, 2, 3 :: real] \<and>
   length (py_slice (sort [1, 3, 2, 3 :: real]) 1 (int (length [1, 3, 2, 3 :: real]) - 2)) = 1 \<and>
   Max (set [1, 3, 2, 3 :: real]) = 3 \<and>
   count_list [1, 3, 2, 3 :: real] 3 = 2 \<and>
   count_list (fst (snd (calculate_first_average [1, 3, 2, 3] 2 1))) 3 = 0 \<and>
   count_list (fst (snd (calculate_first_average [1, 3, 2, 3] 2 1))) 2 = 1 \<and>
   fst (snd (calculate_first_average [1, 3, 2, 3] 2 1)) = [1, 2]"
proof -
  have h1: "3 < length [1, 3, 2, 3 :: real]" by simp
  have h2: "length (py_slice (sort [1, 3, 2, 3 :: real]) 1 (int (length [1, 3, 2, 3 :: real]) - 2)) = 1"
    by (simp add: py_slice_def slice_bound_def)
  have mx: "Max (set [1, 3, 2, 3 :: real]) = 3" by simp
  from single_survivor_removes_every_maximum [OF h1 h2] mx
  have "count_list (fst (snd (calculate_first_average [1, 3, 2, 3] 2 1))) 3 = 0"
    and "count_list (fst (snd (calculate_first_average [1, 3, 2, 3] 2 1))) 2 = 1"
    by simp_all
  moreover have "fst (snd (calculate_first_average [1, 3, 2, 3] 2 1)) = [1, 2]"
    by (simp add: calculate_first_average_def py_slice_def slice_bound_def Let_def)
  ultimately show ?thesis using h1 h2 mx by simp
qed

text \<open>
  The branch taken when the trim leaves nothing: with counts in range
  (\<open>0 \<le> k\<close>, \<open>0 \<le> m \<le> n\<close>) and \<open>k + m \<ge> n\<close> the slice is empty.
\<close>

lemma first_average_zero_survivors:
  assumes "3 < length prices" "0 \<le> k" "0 \<le> m" "m \<le> int (length prices)"
    and "int (length prices) \<le> k + m"
  shows "calculate_first_average prices m k = (np_mean prices, prices, MeanOfAllZeroLeft)"
proof -
  have "length (py_slice (sort prices) k (int (length (sort prices)) - m)) =
      nat (int (length (sort prices)) - m - k)"
    using assms by (intro survivors_count) simp_all
  with assms(5) have "py_slice (sort prices) k (int (length prices) - m) = []" by simp
  with assms(1) show ?thesis
    by (simp add: calculate_first_average_def Let_def)
qed

text \<open>A1 is the mean of the basis on every path, and the basis is made of input prices.\<close>

lemma first_average_is_mean_of_basis:
  "fst (calculate_first_average prices m k) = np_mean (fst (snd (calculate_first_average prices m k)))"
  by (simp add: calculate_first_average_def Let_def)

lemma first_average_basis_subset:
  "set (fst (snd (calculate_first_average prices m k))) \<subseteq> set prices"
  using set_py_slice [of "sort prices" k "int (length prices) - m"]
  by (auto simp add: calculate_first_average_def Let_def)

text \<open>
  The basis is empty in one case only, apart from the empty input: more than three
  prices, one price left by the trim, and all prices equal (each is the maximum).
\<close>

lemma first_average_basis_empty_iff:
  "fst (snd (calculate_first_average prices m k)) = [] \<longleftrightarrow>
     prices = [] \<or>
     (3 < length prices \<and> length (py_slice (sort prices) k (int (length prices) - m)) = 1 \<and>
      (\<forall>p\<in>set prices. p = Max (set prices)))"
proof (cases "3 < length prices \<and> length (py_slice (sort prices) k (int (length prices) - m)) = 1")
  case True
  then have "prices \<noteq> []" by auto
  with first_average_single_survivor [of prices k m] True show ?thesis
    by (simp add: filter_empty_conv)
next
  case False
  then show ?thesis
    by (auto simp add: calculate_first_average_def Let_def)
qed

text \<open>
  C2. The claim that the basis is never empty and that A1 and A2 are positive fails on
  four equal bids of 5 with the two highest and the lowest dropped: one price is left by
  the trim, every bid is the maximum, so the list without the maximum is empty; the basis
  is empty, A1 is the mean of no number (NaN), and so is A2.
\<close>

theorem equal_bids_single_survivor_empty_basis:
  "calculate_first_average [5, 5, 5, 5] 2 1 = (None, [], MeanWithoutHighestOneLeft) \<and>
   calculate_second_average [] None s1 s2 = (None, [], FirstAverageUsed)"
  by (simp add: calculate_first_average_def py_slice_def slice_bound_def np_mean_def
      calculate_second_average_def Let_def)

section \<open>The second average\<close>

text \<open>
  C5. For a first average \<open>a\<close> other than zero, the second average keeps exactly the
  prices \<open>p\<close> of the basis with \<open>s1 \<le> (a - p) / a \<le> s2\<close>, in their order, and A2 is their
  mean; when no price is kept, A2 is \<open>a\<close> itself and the basis is returned unchanged.
\<close>

theorem second_average_band:
  assumes "a \<noteq> 0"
  shows "calculate_second_average R (Some a) s1 s2 =
    (let kept = filter (\<lambda>p. s1 \<le> (a - p) / a \<and> (a - p) / a \<le> s2) R
     in if kept = [] then (Some a, R, FirstAverageUsed)
        else (Some (sum_list kept / real (length kept)), kept, MeanWithinBand))"
proof -
  from assms have "within_band (Some a) s1 s2 = (\<lambda>p. s1 \<le> (a - p) / a \<and> (a - p) / a \<le> s2)"
    by (simp add: within_band_def fun_eq_iff)
  then show ?thesis
    by (simp add: calculate_second_average_def np_mean_def Let_def)
qed

theorem second_average_band_witness:
  "(100::real) \<noteq> 0 \<and>
   calculate_second_average [80, 100, 130] (Some 100) (- (1 / 5)) (1 / 10) =
     (Some 100, [100], MeanWithinBand) \<and>
   calculate_second_average [70, 130] (Some 100) (- (1 / 5)) (1 / 10) =
     (Some 100, [70, 130], FirstAverageUsed)"
  using second_average_band [of 100 "[80, 100, 130]" "- (1 / 5)" "1 / 10"]
    second_average_band [of 100 "[70, 130]" "- (1 / 5)" "1 / 10"]
  by simp

lemma second_average_pos:
  assumes "\<forall>p\<in>set R. 0 < p" "0 < a"
  shows "\<exists>b. fst (calculate_second_average R (Some a) s1 s2) = Some b \<and> 0 < b"
proof (cases "filter (within_band (Some a) s1 s2) R = []")
  case True
  with assms(2) show ?thesis by (simp add: calculate_second_average_def)
next
  case False
  from assms(1) have "\<forall>p\<in>set (filter (within_band (Some a) s1 s2) R). 0 < p" by simp
  from np_mean_pos [OF False this] False show ?thesis
    by (simp add: calculate_second_average_def Let_def)
qed

text \<open>Positive prices and a basis that is not empty give positive averages A1 and A2.\<close>

lemma averages_pos:
  assumes "prices \<noteq> []" "\<forall>p\<in>set prices. 0 < p"
    and "fst (snd (calculate_first_average prices m k)) \<noteq> []"
  shows "\<exists>a b. fst (calculate_first_average prices m k) = Some a \<and> 0 < a \<and>
    fst (calculate_second_average (fst (snd (calculate_first_average prices m k))) (Some a) s1 s2) = Some b \<and>
    0 < b"
proof -
  let ?basis = "fst (snd (calculate_first_average prices m k))"
  from assms(2) first_average_basis_subset [of prices m k]
  have pos: "\<forall>p\<in>set ?basis. 0 < p" by blast
  from np_mean_pos [OF assms(3) pos] obtain a where a: "np_mean ?basis = Some a" "0 < a" by blast
  from second_average_pos [OF pos a(2)] a first_average_is_mean_of_basis [of prices m k]
  show ?thesis by simp
qed

section \<open>The score\<close>

lemma score_unfold:
  assumes "p \<noteq> D" "D \<noteq> 0"
  shows "calculate_price_score p D eh el =
    Some (max (py_round (100 - \<bar>p - D\<bar> / D * 100 * (if D < p then eh else el)) 2) 0)"
  using assms by (simp add: calculate_price_score_def)

text \<open>Against a positive benchmark price and with penalty coefficients that are not
  negative, a score is a number between 0 and 100.\<close>

lemma score_in_range:
  assumes "0 < D" "0 \<le> eh" "0 \<le> el"
  shows "\<exists>s. calculate_price_score p D eh el = Some s \<and> 0 \<le> s \<and> s \<le> 100"
proof (cases "p = D")
  case True
  then show ?thesis by (simp add: calculate_price_score_def)
next
  case False
  let ?e = "if D < p then eh else el"
  from assms have "0 \<le> \<bar>p - D\<bar> / D * 100 * ?e" by simp
  then have "100 - \<bar>p - D\<bar> / D * 100 * ?e \<le> 100" by linarith
  from clamp_round_range [OF this] score_unfold [OF False, of eh el] assms(1)
  show ?thesis by simp
qed

text \<open>
  C6. A bid equal to a positive benchmark price scores exactly 100, whatever the penalty
  coefficients.
\<close>

theorem score_at_benchmark:
  "0 < D \<Longrightarrow> calculate_price_score D D eh el = Some 100"
  by (simp add: calculate_price_score_def)

theorem score_at_benchmark_witness:
  "(0::real) < 90 \<and> calculate_price_score 90 90 1 (1 / 2) = Some 100"
  using score_at_benchmark [of 90 1 "1 / 2"] by simp

text \<open>
  C7, as stated, fails: the two sides of the benchmark price have penalty coefficients of
  their own. With D = 100, 1.0 above and 0.5 below, the bid 110 is nearer to D than the
  bid 85 and scores less (90 against 92.5).
\<close>

theorem score_not_monotone_across_sides:
  "\<bar>110 - 100\<bar> \<le> \<bar>85 - (100::real)\<bar> \<and>
   calculate_price_score 110 100 1 (1 / 2) = Some 90 \<and>
   calculate_price_score 85 100 1 (1 / 2) = Some (185 / 2) \<and>
   (90::real) < 185 / 2"
  by (simp add: calculate_price_score_def py_round_def round_half_even_def)

text \<open>
  C7, amended. For a positive benchmark price D and penalty coefficients that are not
  negative, the score does not increase with the distance from D among bids on one side
  of D (both at or above D, or both at or below D), and among all bids when the two
  coefficients are equal: of two such bids, the one not farther from D scores at least as
  much.
\<close>

theorem score_monotone_same_side:
  assumes "0 < D" "0 \<le> eh" "0 \<le> el" "\<bar>p1 - D\<bar> \<le> \<bar>p2 - D\<bar>"
    and side: "(D \<le> p1 \<and> D \<le> p2) \<or> (p1 \<le> D \<and> p2 \<le> D) \<or> eh = el"
  shows "\<exists>a b. calculate_price_score p1 D eh el = Some a \<and>
               calculate_price_score p2 D eh el = Some b \<and> b \<le> a"
proof (cases "p1 = D")
  case True
  from score_in_range [OF assms(1-3), of p2]
  obtain b where "calculate_price_score p2 D eh el = Some b" "b \<le> 100" by blast
  moreover from True have "calculate_price_score p1 D eh el = Some 100"
    by (simp add: calculate_price_score_def)
  ultimately show ?thesis by simp
next
  case False
  with assms(4) have ne2: "p2 \<noteq> D" by auto
  let ?e1 = "if D < p1 then eh else el"
  let ?e2 = "if D < p2 then eh else el"
  from side False ne2 have e: "?e1 = ?e2" by auto
  from assms have e0: "0 \<le> ?e2" by simp
  from assms(1,4) have "\<bar>p1 - D\<bar> / D \<le> \<bar>p2 - D\<bar> / D"
    by (simp add: divide_right_mono)
  then have "\<bar>p1 - D\<bar> / D * 100 \<le> \<bar>p2 - D\<bar> / D * 100"
    by (rule mult_right_mono) simp
  from mult_right_mono [OF this e0]
  have "100 - \<bar>p2 - D\<bar> / D * 100 * ?e2 \<le> 100 - \<bar>p1 - D\<bar> / D * 100 * ?e1"
    unfolding e by linarith
  from py_round_mono [OF this, of 2]
  have "max (py_round (100 - \<bar>p2 - D\<bar> / D * 100 * ?e2) 2) 0
        \<le> max (py_round (100 - \<bar>p1 - D\<bar> / D * 100 * ?e1) 2) 0"
    by (rule max.mono) simp
  with score_unfold [OF False, of eh el] score_unfold [OF ne2, of eh el] assms(1)
  show ?thesis by simp
qed

theorem score_monotone_same_side_witness:
  "(0::real) < 100 \<and> (0::real) \<le> 1 \<and> (0::real) \<le> 1 / 2 \<and>
   \<bar>110 - 100\<bar> \<le> \<bar>120 - (100::real)\<bar> \<and>
   (100::real) \<le> 110 \<and> (100::real) \<le> 120 \<and>
   calculate_price_score 110 100 1 (1 / 2) = Some 90 \<and>
   calculate_price_score 120 100 1 (1 / 2) = Some 80 \<and>
   (80::real) \<le> 90"
  using score_monotone_same_side [of 100 1 "1 / 2" 110 120]
  by (simp add: calculate_price_score_def py_round_def round_half_even_def)

section \<open>The evaluation run\<close>

text \<open>
  C9. The bids 100, 110, 90, 105, 95 under the starting parameters (no trim, band from
  -0.2 to 0.1, K = 0.90, coefficients 1.0 and 0.5). The whole result of the run: A1 = 100
  over all five prices (nothing is trimmed); the second pass finds all five prices within
  the band, so its basis is the five prices, its note is the mean within the band (not the
  fallback to A1) and A2 = 100; the benchmark price is 90; the bid of 100 scores 88.89 and
  the bid of 90 scores 100 (the bids of 110, 105 and 95 score 77.78, 83.33 and 94.44).
  The second conjunct states the band test bid by bid.
\<close>

theorem scenario_five_bids:
  "evaluate [100, 110, 90, 105, 95] default_params =
   Some \<lparr>
     first_avg_of = Some 100,
     remaining_prices_of = [90, 95, 100, 105, 110],
     first_avg_note_of = MeanOfRemaining,
     second_avg_of = Some 100,
     final_prices_of = [90, 95, 100, 105, 110],
     second_avg_note_of = MeanWithinBand,
     base_price_of = Some 90,
     results_of =
       [\<lparr> row_index = 1, row_price = 100, row_first_avg = Some 100,
          row_first_deviation = Some 0, row_second_avg = Some 100,
          row_base_price = Some 90, row_final_deviation = Some 0,
          row_score = Some (8889 / 100) \<rparr>,
        \<lparr> row_index = 2, row_price = 110, row_first_avg = Some 100,
          row_first_deviation = Some (- (1 / 10)), row_second_avg = Some 100,
          row_base_price = Some 90, row_final_deviation = Some (- (1 / 10)),
          row_score = Some (7778 / 100) \<rparr>,
        \<lparr> row_index = 3, row_price = 90, row_first_avg = Some 100,
          row_first_deviation = Some (1 / 10), row_second_avg = Some 100,
          row_base_price = Some 90, row_final_deviation = Some (1 / 10),
          row_score = Some 100 \<rparr>,
        \<lparr> row_index = 4, row_price = 105, row_first_avg = Some 100,
          row_first_deviation = Some (- (1 / 20)), row_second_avg = Some 100,
          row_base_price = Some 90, row_final_deviation = Some (- (1 / 20)),
          row_score = Some (8333 / 100) \<rparr>,
        \<lparr> row_index = 5, row_price = 95, row_first_avg = Some 100,
          row_first_deviation = Some (1 / 20), row_second_avg = Some 100,
          row_base_price = Some 90, row_final_deviation = Some (1 / 20),
          row_score = Some (9444 / 100) \<rparr>] \<rparr> \<and>
   map (within_band (Some 100) (s1_value default_params) (s2_value default_params))
     [100, 110, 90, 105, 95] = [True, True, True, True, True]"
  by (simp add: evaluate_def default_params_def calculate_first_average_def py_slice_def
      slice_bound_def np_mean_def calculate_second_average_def within_band_def
      score_against_def calculate_price_score_def py_round_def round_half_even_def
      deviation_def enumerate_eq_zip Let_def)

text \<open>
  C8, as stated, fails: no path of the run raises. On the four bids 100, 110, 90, 105
  with the two highest and the two lowest dropped (k + m = n) the run returns a result:
  A1 is the mean of all four bids, the basis is the whole list, and every bid is scored.
\<close>

theorem trim_everything_still_scores:
  "map_option (\<lambda>r. (first_avg_of r, remaining_prices_of r, first_avg_note_of r,
        map row_score (results_of r)))
     (evaluate [100, 110, 90, 105]
        (default_params \<lparr> use_elimination := True, m_value := 2, k_value_elim := 2 \<rparr>)) =
   Some (Some (405 / 4), [100, 110, 90, 105], MeanOfAllZeroLeft,
         [Some (9418 / 100), Some (8360 / 100), Some (9762 / 100), Some (8889 / 100)])"
  by (simp add: evaluate_def default_params_def calculate_first_average_def py_slice_def
      slice_bound_def np_mean_def calculate_second_average_def within_band_def
      score_against_def calculate_price_score_def py_round_def round_half_even_def
      enumerate_eq_zip Let_def)

text \<open>
  C8, amended. When the trim counts remove every price (more than three prices, the
  elimination rule on, \<open>0 \<le> k\<close>, \<open>0 \<le> m \<le> n\<close> and \<open>k + m \<ge> n\<close>), the run does not
  abort: it returns a result in which A1 is the mean of all the prices, the basis is the
  whole list and the note tells that no supplier was left after the trim.
\<close>

theorem trim_everything_falls_back:
  assumes "3 < length prices" "use_elimination ps"
    and "0 \<le> k_value_elim ps" "0 \<le> m_value ps" "m_value ps \<le> int (length prices)"
    and "int (length prices) \<le> k_value_elim ps + m_value ps"
  shows "\<exists>r. evaluate prices ps = Some r \<and>
    first_avg_of r = Some (sum_list prices / real (length prices)) \<and>
    remaining_prices_of r = prices \<and> first_avg_note_of r = MeanOfAllZeroLeft"
proof -
  from assms(1) have ne: "prices \<noteq> []" by auto
  from first_average_zero_survivors [OF assms(1,3,4,5,6)] ne assms(2)
  show ?thesis
    by (simp add: evaluate_def np_mean_def Let_def split: prod.split)
qed

theorem trim_everything_falls_back_witness:
  "3 < length [1, 2, 3, 4, 5 :: real] \<and>
   (0::int) \<le> 2 \<and> (0::int) \<le> 3 \<and> 3 \<le> int (length [1, 2, 3, 4, 5 :: real]) \<and>
   int (length [1, 2, 3, 4, 5 :: real]) \<le> 2 + 3 \<and>
   map_option (\<lambda>r. (first_avg_of r, remaining_prices_of r, first_avg_note_of r))
     (evaluate [1, 2, 3, 4, 5]
        (default_params \<lparr> use_elimination := True, m_value := 3, k_value_elim := 2 \<rparr>)) =
   Some (Some 3, [1, 2, 3, 4, 5], MeanOfAllZeroLeft)"
  using trim_everything_falls_back [of "[1, 2, 3, 4, 5]"
      "default_params \<lparr> use_elimination := True, m_value := 3, k_value_elim := 2 \<rparr>"]
  by (auto simp add: default_params_def)

text \<open>
  Scores in range. On positive prices, with K positive and penalty coefficients that are
  not negative, every bid gets a score between 0 and 100, in every case but the one in
  which the basis of the first average is empty (lemma \<open>first_average_basis_empty_iff\<close>).
\<close>

lemma evaluate_scores_in_range:
  assumes "prices \<noteq> []" "\<forall>p\<in>set prices. 0 < p"
    and "0 < k_value ps" "0 \<le> e_higher ps" "0 \<le> e_lower ps"
    and "\<not> (use_elimination ps \<and> 3 < length prices \<and>
      length (py_slice (sort prices) (k_value_elim ps) (int (length prices) - m_value ps)) = 1 \<and>
      (\<forall>p\<in>set prices. p = Max (set prices)))"
  shows "\<exists>r. evaluate prices ps = Some r \<and>
    length (results_of r) = length prices \<and>
    (\<forall>b\<in>set (results_of r). \<exists>s. row_score b = Some s \<and> 0 \<le> s \<and> s \<le> 100)"
proof -
  define m where "m = (if use_elimination ps then m_value ps else 0)"
  define k where "k = (if use_elimination ps then k_value_elim ps else 0)"
  have fa: "(if use_elimination ps
      then calculate_first_average prices (m_value ps) (k_value_elim ps)
      else calculate_first_average prices 0 0) = calculate_first_average prices m k"
    by (simp add: m_def k_def)
  have "length (py_slice (sort prices) 0 (int (length prices) - 0)) = length prices"
    by (simp add: length_py_slice slice_bound_def)
  with assms(1,6) have "fst (snd (calculate_first_average prices m k)) \<noteq> []"
    unfolding first_average_basis_empty_iff m_def k_def by (auto split: if_splits)
  from averages_pos [OF assms(1,2) this, of "s1_value ps" "s2_value ps"]
  obtain a b where a: "fst (calculate_first_average prices m k) = Some a"
    and b: "fst (calculate_second_average (fst (snd (calculate_first_average prices m k)))
          (Some a) (s1_value ps) (s2_value ps)) = Some b" "0 < b"
    by blast
  from b(2) assms(3) have D: "0 < b * k_value ps" by simp
  have "\<exists>s. score_against (Some (b * k_value ps)) p (e_higher ps) (e_lower ps) = Some s \<and>
      0 \<le> s \<and> s \<le> 100" for p
    using score_in_range [OF D assms(4,5), of p] by (simp add: score_against_def)
  with assms(1) a b(1) show ?thesis
    unfolding evaluate_def fa
    by (cases "calculate_first_average prices m k";
        cases "calculate_second_average (fst (snd (calculate_first_average prices m k)))
          (Some a) (s1_value ps) (s2_value ps)")
       (auto simp add: Let_def)
qed

text \<open>
  C1. The claim that every score lies between 0 and 100 fails in that one case: on four
  equal bids of 5 with the elimination rule on, the two highest and the lowest dropped,
  the basis is empty, the benchmark price is NaN and every bid is scored NaN.
\<close>

theorem equal_bids_single_survivor_scores_nan:
  "map_option (\<lambda>r. (base_price_of r, map row_score (results_of r)))
     (evaluate [5, 5, 5, 5]
        (default_params \<lparr> use_elimination := True, m_value := 2, k_value_elim := 1 \<rparr>)) =
   Some (None, [None, None, None, None])"
  by (simp add: evaluate_def default_params_def calculate_first_average_def py_slice_def
      slice_bound_def np_mean_def calculate_second_average_def within_band_def
      score_against_def enumerate_eq_zip Let_def)

end
